theory Spec2Isabelle
  imports Main "HOL-Library.Word"
begin

section \<open>Macro-controlled logging: the level gate of \<open>mcl.h\<close>\<close>

text \<open>
  The header \<^verbatim>\<open>include/mcl.h\<close> is a family of preprocessor macros. Each macro is
  modelled by the function its expansion computes: the build-time configuration
  (the three \<^verbatim>\<open>DYNAMIC_LOG_LVL*\<close> macros) is a record the functions take as their first
  argument, every \<^verbatim>\<open>#if\<close> of the header is an \<open>if\<close> on that record, the variables
  \<^verbatim>\<open>__<name>_log_lvl\<close> are a map from the system's name to a byte, and what
  \<^verbatim>\<open>fprintf\<close> writes is a list of output events. The level argument of
  \<^verbatim>\<open>DEFINE_LOG_SYSTEM\<close> and \<^verbatim>\<open>SET_LOG_SYSTEM_LVL\<close> is program text: it is an expression,
  pasted where the macro has its parameter and parsed and evaluated there. A build failure (the \<^verbatim>\<open>#error\<close>
  directive, a name with no variable behind it, a second definition of one variable)
  is an error value. \<^verbatim>\<open>DECLARE_LOG_SYSTEM\<close> is an \<^verbatim>\<open>extern\<close> declaration or nothing: it
  creates no storage and has no counterpart here. \<^verbatim>\<open>LOG_ACTION\<close> is the header's
  default; a client that defines its own before including the header replaces it.
\<close>

subsection \<open>Levels\<close>

text \<open>\<^verbatim>\<open>typedef char __log_lvl_t;\<close> One byte; whether plain \<^verbatim>\<open>char\<close> is signed is the
  implementation's choice and is a field of the configuration below.\<close>

type_synonym log_lvl_t = "8 word"

definition LOG_LVL_FATAL :: int where "LOG_LVL_FATAL = 0"
definition LOG_LVL_ERROR :: int where "LOG_LVL_ERROR = 1"
definition LOG_LVL_WARN :: int where "LOG_LVL_WARN = 2"
definition LOG_LVL_MSG :: int where "LOG_LVL_MSG = 3"
definition LOG_LVL_INFO :: int where "LOG_LVL_INFO = 4"
definition LOG_LVL_VERBOSE :: int where "LOG_LVL_VERBOSE = 5"
definition LOG_LVL_DEBUG :: int where "LOG_LVL_DEBUG = 6"
definition LOG_LVL_TRACE :: int where "LOG_LVL_TRACE = 7"
definition LOG_LVL_NONE :: int where "LOG_LVL_NONE = - 1"
definition LOG_LVL_ALL :: int where "LOG_LVL_ALL = 127"

named_theorems lvl_defs \<open>the numeric values of the level macros\<close>

declare LOG_LVL_FATAL_def [lvl_defs] LOG_LVL_ERROR_def [lvl_defs]
  LOG_LVL_WARN_def [lvl_defs] LOG_LVL_MSG_def [lvl_defs] LOG_LVL_INFO_def [lvl_defs]
  LOG_LVL_VERBOSE_def [lvl_defs] LOG_LVL_DEBUG_def [lvl_defs]
  LOG_LVL_TRACE_def [lvl_defs] LOG_LVL_NONE_def [lvl_defs] LOG_LVL_ALL_def [lvl_defs]

text \<open>The eight logging macros, one per level, named by the level they log at.\<close>

datatype severity = FATAL | ERROR | WARN | MSG | INFO | VERBOSE | DEBUG | TRACE

fun LOG_LVL :: "severity \<Rightarrow> int" where
  "LOG_LVL FATAL = LOG_LVL_FATAL"
| "LOG_LVL ERROR = LOG_LVL_ERROR"
| "LOG_LVL WARN = LOG_LVL_WARN"
| "LOG_LVL MSG = LOG_LVL_MSG"
| "LOG_LVL INFO = LOG_LVL_INFO"
| "LOG_LVL VERBOSE = LOG_LVL_VERBOSE"
| "LOG_LVL DEBUG = LOG_LVL_DEBUG"
| "LOG_LVL TRACE = LOG_LVL_TRACE"

subsection \<open>Build-time configuration\<close>

text \<open>
  The values the preprocessor sees for the three configuration macros, and the
  signedness of plain \<^verbatim>\<open>char\<close> on the target. \<^verbatim>\<open>#if DYNAMIC_LOG_LVL\<close> is true when the
  value is not zero.
\<close>

record config =
  DYNAMIC_LOG_LVL :: int
  DYNAMIC_LOG_LVL_MAX :: int
  DYNAMIC_LOG_LVL_MIN :: int
  char_is_signed :: bool

text \<open>The \<^verbatim>\<open>#ifndef\<close> defaults of the header: enabled, \<open>[WARN, VERBOSE]\<close>.\<close>

definition default_config :: "bool \<Rightarrow> config" where
  "default_config signed_char =
     \<lparr>DYNAMIC_LOG_LVL = 1,
      DYNAMIC_LOG_LVL_MAX = LOG_LVL_VERBOSE,
      DYNAMIC_LOG_LVL_MIN = LOG_LVL_WARN,
      char_is_signed = signed_char\<rparr>"

datatype build_error =
  Error_directive string
| Undeclared string
| Redefinition string
| Initializer_not_constant string

text \<open>
  \<^verbatim>\<open>#if DYNAMIC_LOG_LVL_MIN > DYNAMIC_LOG_LVL_MAX\<close>
  \<^verbatim>\<open>#error "DYNAMIC_LOG_LVL_MIN cannot be greater than DYNAMIC_LOG_LVL_MAX"\<close>
\<close>

definition mcl_h :: "config \<Rightarrow> build_error + unit" where
  "mcl_h cfg =
     (if DYNAMIC_LOG_LVL_MIN cfg > DYNAMIC_LOG_LVL_MAX cfg
      then Inl (Error_directive
        ''DYNAMIC_LOG_LVL_MIN cannot be greater than DYNAMIC_LOG_LVL_MAX'')
      else Inr ())"

subsection \<open>Program state\<close>

datatype stream = Stderr | Stdout

text \<open>The level variables of the defined systems, the client's own \<^verbatim>\<open>int\<close> variables,
  and what has been printed.\<close>

record state =
  log_lvl :: "string \<rightharpoonup> log_lvl_t"
  vars :: "string \<rightharpoonup> int"
  out :: "(stream \<times> string) list"

definition init_state :: state where
  "init_state = \<lparr>log_lvl = Map.empty, vars = Map.empty, out = []\<rparr>"

text \<open>Reading a \<^verbatim>\<open>__log_lvl_t\<close> in an expression: the integer promotion of a \<^verbatim>\<open>char\<close>.\<close>

definition lvl_value :: "config \<Rightarrow> log_lvl_t \<Rightarrow> int" where
  "lvl_value cfg w = (if char_is_signed cfg then sint w else uint w)"

text \<open>Storing an \<^verbatim>\<open>int\<close> into a \<^verbatim>\<open>__log_lvl_t\<close>: the low eight bits are kept.\<close>

definition to_log_lvl_t :: "int \<Rightarrow> log_lvl_t" where
  "to_log_lvl_t v = word_of_int v"

text \<open>The values a \<^verbatim>\<open>__log_lvl_t\<close> holds unchanged: the range of plain \<^verbatim>\<open>char\<close>.\<close>

definition lvl_representable :: "config \<Rightarrow> int \<Rightarrow> bool" where
  "lvl_representable cfg v =
     (if char_is_signed cfg then - 128 \<le> v \<and> v \<le> 127 else 0 \<le> v \<and> v \<le> 255)"

subsection \<open>The output action\<close>

text \<open>
  The default \<^verbatim>\<open>LOG_ACTION(lvl, args)\<close>: a \<^verbatim>\<open>switch\<close> that prints to \<^verbatim>\<open>stderr\<close> for
  \<^verbatim>\<open>LOG_LVL_FATAL\<close>, \<^verbatim>\<open>LOG_LVL_ERROR\<close> and \<^verbatim>\<open>LOG_LVL_WARN\<close>, to \<^verbatim>\<open>stdout\<close> otherwise.
\<close>

definition LOG_ACTION :: "int \<Rightarrow> string \<Rightarrow> state \<Rightarrow> state" where
  "LOG_ACTION lvl args st =
     (if lvl = LOG_LVL_FATAL \<or> lvl = LOG_LVL_ERROR \<or> lvl = LOG_LVL_WARN
      then st\<lparr>out := out st @ [(Stderr, args)]\<rparr>
      else st\<lparr>out := out st @ [(Stdout, args)]\<rparr>)"

subsection \<open>The logging macros\<close>

text \<open>
  The eight definitions \<^verbatim>\<open>LOG_FATAL\<close> .. \<^verbatim>\<open>LOG_TRACE\<close> have one shape; \<open>LOG_at\<close> is
  that shape with the level constant as a parameter:

  \<^verbatim>\<open>#if DYNAMIC_LOG_LVL_MAX >= LOG_LVL_X\<close>
  \<^verbatim>\<open>#if DYNAMIC_LOG_LVL && (DYNAMIC_LOG_LVL_MIN <= LOG_LVL_X)\<close>
  \<^verbatim>\<open>  { if(__name_log_lvl >= LOG_LVL_X) { LOG_ACTION(LOG_LVL_X, args); } }\<close>
  \<^verbatim>\<open>#else\<close>
  \<^verbatim>\<open>  { LOG_ACTION(LOG_LVL_X, args); }\<close>
  \<^verbatim>\<open>#endif\<close>
  \<^verbatim>\<open>#else\<close>
  \<^verbatim>\<open>  (empty)\<close>
  \<^verbatim>\<open>#endif\<close>
\<close>

definition LOG_at ::
  "config \<Rightarrow> int \<Rightarrow> string \<Rightarrow> string \<Rightarrow> state \<Rightarrow> build_error + state" where
  "LOG_at cfg lvl name args st =
     (if DYNAMIC_LOG_LVL_MAX cfg \<ge> lvl then
        (if DYNAMIC_LOG_LVL cfg \<noteq> 0 \<and> DYNAMIC_LOG_LVL_MIN cfg \<le> lvl then
           (case log_lvl st name of
              None \<Rightarrow> Inl (Undeclared name)
            | Some w \<Rightarrow>
                if lvl_value cfg w \<ge> lvl then Inr (LOG_ACTION lvl args st)
                else Inr st)
         else Inr (LOG_ACTION lvl args st))
      else Inr st)"

definition LOG_FATAL :: "config \<Rightarrow> string \<Rightarrow> string \<Rightarrow> state \<Rightarrow> build_error + state" where
  "LOG_FATAL cfg = LOG_at cfg LOG_LVL_FATAL"

definition LOG_ERROR :: "config \<Rightarrow> string \<Rightarrow> string \<Rightarrow> state \<Rightarrow> build_error + state" where
  "LOG_ERROR cfg = LOG_at cfg LOG_LVL_ERROR"

definition LOG_WARN :: "config \<Rightarrow> string \<Rightarrow> string \<Rightarrow> state \<Rightarrow> build_error + state" where
  "LOG_WARN cfg = LOG_at cfg LOG_LVL_WARN"

definition LOG_MSG :: "config \<Rightarrow> string \<Rightarrow> string \<Rightarrow> state \<Rightarrow> build_error + state" where
  "LOG_MSG cfg = LOG_at cfg LOG_LVL_MSG"

definition LOG_INFO :: "config \<Rightarrow> string \<Rightarrow> string \<Rightarrow> state \<Rightarrow> build_error + state" where
  "LOG_INFO cfg = LOG_at cfg LOG_LVL_INFO"

definition LOG_VERBOSE :: "config \<Rightarrow> string \<Rightarrow> string \<Rightarrow> state \<Rightarrow> build_error + state" where
  "LOG_VERBOSE cfg = LOG_at cfg LOG_LVL_VERBOSE"

definition LOG_DEBUG :: "config \<Rightarrow> string \<Rightarrow> string \<Rightarrow> state \<Rightarrow> build_error + state" where
  "LOG_DEBUG cfg = LOG_at cfg LOG_LVL_DEBUG"

definition LOG_TRACE :: "config \<Rightarrow> string \<Rightarrow> string \<Rightarrow> state \<Rightarrow> build_error + state" where
  "LOG_TRACE cfg = LOG_at cfg LOG_LVL_TRACE"

text \<open>A call site: the macro of the chosen level.\<close>

fun LOG :: "config \<Rightarrow> severity \<Rightarrow> string \<Rightarrow> string \<Rightarrow> state \<Rightarrow> build_error + state" where
  "LOG cfg FATAL = LOG_FATAL cfg"
| "LOG cfg ERROR = LOG_ERROR cfg"
| "LOG cfg WARN = LOG_WARN cfg"
| "LOG cfg MSG = LOG_MSG cfg"
| "LOG cfg INFO = LOG_INFO cfg"
| "LOG cfg VERBOSE = LOG_VERBOSE cfg"
| "LOG cfg DEBUG = LOG_DEBUG cfg"
| "LOG cfg TRACE = LOG_TRACE cfg"

subsection \<open>Reading a system's level\<close>

text \<open>
  \<^verbatim>\<open>GET_LOG_SYSTEM_LVL(name)\<close>: with dynamic levels the expression \<^verbatim>\<open>(__name_log_lvl)\<close>,
  without, the constant \<^verbatim>\<open>DYNAMIC_LOG_LVL_MAX\<close>. The result is the value and the state
  after the evaluation.
\<close>

definition GET_LOG_SYSTEM_LVL :: "config \<Rightarrow> string \<Rightarrow> state \<Rightarrow> build_error + (int \<times> state)" where
  "GET_LOG_SYSTEM_LVL cfg name st =
     (if DYNAMIC_LOG_LVL cfg \<noteq> 0 then
        (case log_lvl st name of
           None \<Rightarrow> Inl (Undeclared name)
         | Some w \<Rightarrow> Inr (lvl_value cfg w, st))
      else Inr (DYNAMIC_LOG_LVL_MAX cfg, st))"

subsection \<open>Level arguments\<close>

text \<open>
  The expressions a client writes as the level argument. An \<open>operand\<close> is an expression
  whose operators bind tighter than \<^verbatim>\<open><\<close> and \<^verbatim>\<open>>\<close>: an \<^verbatim>\<open>int\<close> constant (\<^verbatim>\<open>9\<close>,
  \<^verbatim>\<open>-1\<close>, \<^verbatim>\<open>LOG_LVL_ALL\<close>), an \<^verbatim>\<open>unsigned\<close> constant (\<^verbatim>\<open>3u\<close>), an \<^verbatim>\<open>int\<close> variable
  (\<^verbatim>\<open>j\<close>), a post-increment of one (\<^verbatim>\<open>j++\<close>), \<^verbatim>\<open>GET_LOG_SYSTEM_LVL(name)\<close>, or any
  expression in parentheses. A \<open>cexpr\<close> is an operand or a conditional expression
  \<^verbatim>\<open>c ? x : y\<close>, whose condition is an operand and whose last part is again a
  conditional expression or an operand, as the grammar of C has it. Constants and
  variables hold values of a 32-bit \<^verbatim>\<open>int\<close> or \<^verbatim>\<open>unsigned int\<close>.
\<close>

datatype operand =
  IntConst int
| UIntConst int
| IntVar string
| PostInc string
| GetLvl string
| Paren cexpr
and cexpr =
  Operand operand
| Cond operand cexpr cexpr

datatype ctype = Int_t | UInt_t

text \<open>The usual arithmetic conversions: \<^verbatim>\<open>unsigned\<close> wins over \<^verbatim>\<open>int\<close>.\<close>

fun join :: "ctype \<Rightarrow> ctype \<Rightarrow> ctype" where
  "join Int_t Int_t = Int_t"
| "join Int_t UInt_t = UInt_t"
| "join UInt_t t = UInt_t"

text \<open>Converting a value to a type: to \<^verbatim>\<open>unsigned\<close>, modulo \<open>2 ^ 32\<close>.\<close>

fun conv :: "ctype \<Rightarrow> int \<Rightarrow> int" where
  "conv Int_t v = v"
| "conv UInt_t v = v mod 2 ^ 32"

text \<open>\<^verbatim>\<open>a < b\<close> after the usual arithmetic conversions.\<close>

definition c_less :: "ctype \<Rightarrow> int \<Rightarrow> ctype \<Rightarrow> int \<Rightarrow> bool" where
  "c_less ta a tb b = (conv (join ta tb) a < conv (join ta tb) b)"

text \<open>The type of an expression. A level variable is a \<^verbatim>\<open>char\<close>, promoted to \<^verbatim>\<open>int\<close>
  wherever it is an operand.\<close>

fun type_operand :: "operand \<Rightarrow> ctype"
  and type_cexpr :: "cexpr \<Rightarrow> ctype" where
  "type_operand (IntConst v) = Int_t"
| "type_operand (UIntConst v) = UInt_t"
| "type_operand (IntVar x) = Int_t"
| "type_operand (PostInc x) = Int_t"
| "type_operand (GetLvl n) = Int_t"
| "type_operand (Paren e) = type_cexpr e"
| "type_cexpr (Operand a) = type_operand a"
| "type_cexpr (Cond c x y) = join (type_cexpr x) (type_cexpr y)"

text \<open>The first identifier of an expression that has no declaration: the expression
  does not compile, whichever of its branches would be evaluated.\<close>

fun undeclared_operand :: "config \<Rightarrow> state \<Rightarrow> operand \<Rightarrow> string option"
  and undeclared_cexpr :: "config \<Rightarrow> state \<Rightarrow> cexpr \<Rightarrow> string option" where
  "undeclared_operand cfg st (IntConst v) = None"
| "undeclared_operand cfg st (UIntConst v) = None"
| "undeclared_operand cfg st (IntVar x) = (if vars st x = None then Some x else None)"
| "undeclared_operand cfg st (PostInc x) = (if vars st x = None then Some x else None)"
| "undeclared_operand cfg st (GetLvl n) =
     (if DYNAMIC_LOG_LVL cfg \<noteq> 0 \<and> log_lvl st n = None then Some n else None)"
| "undeclared_operand cfg st (Paren e) = undeclared_cexpr cfg st e"
| "undeclared_cexpr cfg st (Operand a) = undeclared_operand cfg st a"
| "undeclared_cexpr cfg st (Cond c x y) =
     (case undeclared_operand cfg st c of
        Some i \<Rightarrow> Some i
      | None \<Rightarrow>
          (case undeclared_cexpr cfg st x of
             Some i \<Rightarrow> Some i
           | None \<Rightarrow> undeclared_cexpr cfg st y))"

text \<open>A constant expression, as the initializer of a variable at file scope must be.\<close>

fun constant_operand :: "operand \<Rightarrow> bool"
  and constant_cexpr :: "cexpr \<Rightarrow> bool" where
  "constant_operand (IntConst v) = True"
| "constant_operand (UIntConst v) = True"
| "constant_operand (IntVar x) = False"
| "constant_operand (PostInc x) = False"
| "constant_operand (GetLvl n) = False"
| "constant_operand (Paren e) = constant_cexpr e"
| "constant_cexpr (Operand a) = constant_operand a"
| "constant_cexpr (Cond c x y) = (constant_operand c \<and> constant_cexpr x \<and> constant_cexpr y)"

text \<open>The value of a result converted to the type of the expression it is a part of.\<close>

definition converted :: "ctype \<Rightarrow> string + (int \<times> state) \<Rightarrow> string + (int \<times> state)" where
  "converted t r = map_sum id (apfst (conv t)) r"

text \<open>
  Evaluation: the value, and the state after the side effects. \<open>Inl x\<close> names an
  identifier without a declaration. A conditional expression evaluates its condition,
  then one of its branches, and has the common type of both.
\<close>

fun eval_operand :: "config \<Rightarrow> operand \<Rightarrow> state \<Rightarrow> string + (int \<times> state)"
  and eval_cexpr :: "config \<Rightarrow> cexpr \<Rightarrow> state \<Rightarrow> string + (int \<times> state)" where
  "eval_operand cfg (IntConst v) st = Inr (v, st)"
| "eval_operand cfg (UIntConst v) st = Inr (conv UInt_t v, st)"
| "eval_operand cfg (IntVar x) st =
     (case vars st x of None \<Rightarrow> Inl x | Some v \<Rightarrow> Inr (v, st))"
| "eval_operand cfg (PostInc x) st =
     (case vars st x of
        None \<Rightarrow> Inl x
      | Some v \<Rightarrow> Inr (v, st\<lparr>vars := (vars st)(x \<mapsto> v + 1)\<rparr>))"
| "eval_operand cfg (GetLvl n) st =
     (case GET_LOG_SYSTEM_LVL cfg n st of Inl e \<Rightarrow> Inl n | Inr r \<Rightarrow> Inr r)"
| "eval_operand cfg (Paren e) st = eval_cexpr cfg e st"
| "eval_cexpr cfg (Operand a) st = eval_operand cfg a st"
| "eval_cexpr cfg (Cond c x y) st =
     (case eval_operand cfg c st of
        Inl i \<Rightarrow> Inl i
      | Inr (vc, st1) \<Rightarrow>
          converted (type_cexpr (Cond c x y))
            (if vc \<noteq> 0 then eval_cexpr cfg x st1 else eval_cexpr cfg y st1))"

subsection \<open>The clamp macro\<close>

text \<open>
  \<^verbatim>\<open>#define __LOG_LVL_CLAMP(lvl)\<close>
  \<^verbatim>\<open>  (lvl > DYNAMIC_LOG_LVL_MAX ? DYNAMIC_LOG_LVL_MAX :\<close>
  \<^verbatim>\<open>    (lvl < DYNAMIC_LOG_LVL_MIN ? DYNAMIC_LOG_LVL_MIN : lvl))\<close>

  The parameter stands three times in the body, without parentheses of its own, so
  the text of the argument is parsed together with what follows it. An operand \<open>a\<close>
  gives the comparison \<^verbatim>\<open>a > MAX\<close>. A conditional \<^verbatim>\<open>c ? x : y\<close> in front of
  \<^verbatim>\<open>> MAX ? MAX : (...)\<close> is parsed as \<^verbatim>\<open>c ? x : (y > MAX ? MAX : (...))\<close>: the rest of
  the macro body becomes part of its last branch, and the same holds for \<open>y\<close> in turn.
  Each occurrence evaluates the argument anew.

  \<open>clamp_inner cfg lvl e\<close> is the text \<^verbatim>\<open>e < MIN ? MIN : lvl\<close> of the inner
  parentheses, where \<open>e\<close> is what is left of the second occurrence of the argument and
  \<open>lvl\<close> is the third; \<open>clamp_outer cfg lvl e\<close> is \<^verbatim>\<open>e > MAX ? MAX : (...)\<close> for what
  is left of the first occurrence. \<open>type_inner\<close> and \<open>type_outer\<close> are their types.
\<close>

fun type_inner :: "cexpr \<Rightarrow> cexpr \<Rightarrow> ctype" where
  "type_inner lvl (Operand a) = join Int_t (type_cexpr lvl)"
| "type_inner lvl (Cond c x y) = join (type_cexpr x) (type_inner lvl y)"

fun clamp_inner :: "config \<Rightarrow> cexpr \<Rightarrow> cexpr \<Rightarrow> state \<Rightarrow> string + (int \<times> state)" where
  "clamp_inner cfg lvl (Operand a) st =
     (case eval_operand cfg a st of
        Inl i \<Rightarrow> Inl i
      | Inr (v, st1) \<Rightarrow>
          converted (type_inner lvl (Operand a))
            (if c_less (type_operand a) v Int_t (DYNAMIC_LOG_LVL_MIN cfg)
             then Inr (DYNAMIC_LOG_LVL_MIN cfg, st1)
             else eval_cexpr cfg lvl st1))"
| "clamp_inner cfg lvl (Cond c x y) st =
     (case eval_operand cfg c st of
        Inl i \<Rightarrow> Inl i
      | Inr (vc, st1) \<Rightarrow>
          converted (type_inner lvl (Cond c x y))
            (if vc \<noteq> 0 then eval_cexpr cfg x st1 else clamp_inner cfg lvl y st1))"

fun type_outer :: "cexpr \<Rightarrow> cexpr \<Rightarrow> ctype" where
  "type_outer lvl (Operand a) = join Int_t (type_inner lvl lvl)"
| "type_outer lvl (Cond c x y) = join (type_cexpr x) (type_outer lvl y)"

fun clamp_outer :: "config \<Rightarrow> cexpr \<Rightarrow> cexpr \<Rightarrow> state \<Rightarrow> string + (int \<times> state)" where
  "clamp_outer cfg lvl (Operand a) st =
     (case eval_operand cfg a st of
        Inl i \<Rightarrow> Inl i
      | Inr (v, st1) \<Rightarrow>
          converted (type_outer lvl (Operand a))
            (if c_less Int_t (DYNAMIC_LOG_LVL_MAX cfg) (type_operand a) v
             then Inr (DYNAMIC_LOG_LVL_MAX cfg, st1)
             else clamp_inner cfg lvl lvl st1))"
| "clamp_outer cfg lvl (Cond c x y) st =
     (case eval_operand cfg c st of
        Inl i \<Rightarrow> Inl i
      | Inr (vc, st1) \<Rightarrow>
          converted (type_outer lvl (Cond c x y))
            (if vc \<noteq> 0 then eval_cexpr cfg x st1 else clamp_outer cfg lvl y st1))"

definition LOG_LVL_CLAMP :: "config \<Rightarrow> cexpr \<Rightarrow> state \<Rightarrow> string + (int \<times> state)" where
  "LOG_LVL_CLAMP cfg lvl st = clamp_outer cfg lvl lvl st"

subsection \<open>Defining and setting a system's level\<close>

text \<open>
  \<^verbatim>\<open>DEFINE_LOG_SYSTEM(name, lvl)\<close>: with dynamic levels, the definition
  \<^verbatim>\<open>__log_lvl_t __name_log_lvl = __LOG_LVL_CLAMP(lvl);\<close> at file scope (a second
  definition of the same variable does not build, nor does an initializer that is not
  constant); without, nothing.
\<close>

definition DEFINE_LOG_SYSTEM :: "config \<Rightarrow> string \<Rightarrow> cexpr \<Rightarrow> state \<Rightarrow> build_error + state" where
  "DEFINE_LOG_SYSTEM cfg name lvl st =
     (if DYNAMIC_LOG_LVL cfg \<noteq> 0 then
        (case log_lvl st name of
           Some w \<Rightarrow> Inl (Redefinition name)
         | None \<Rightarrow>
             if \<not> constant_cexpr lvl then Inl (Initializer_not_constant name)
             else
               (case LOG_LVL_CLAMP cfg lvl st of
                  Inl i \<Rightarrow> Inl (Undeclared i)
                | Inr (v, st1) \<Rightarrow>
                    Inr (st1\<lparr>log_lvl := (log_lvl st1)(name \<mapsto> to_log_lvl_t v)\<rparr>)))
      else Inr st)"

text \<open>
  \<^verbatim>\<open>SET_LOG_SYSTEM_LVL(name, lvl)\<close>: with dynamic levels the assignment expression
  \<^verbatim>\<open>(__name_log_lvl = __LOG_LVL_CLAMP(lvl))\<close>, whose value is that of the variable after
  the store; without, the macro expands to nothing, the argument is dropped with it,
  and there is no value.
\<close>

definition SET_LOG_SYSTEM_LVL ::
  "config \<Rightarrow> string \<Rightarrow> cexpr \<Rightarrow> state \<Rightarrow> build_error + (int option \<times> state)" where
  "SET_LOG_SYSTEM_LVL cfg name lvl st =
     (if DYNAMIC_LOG_LVL cfg \<noteq> 0 then
        (case log_lvl st name of
           None \<Rightarrow> Inl (Undeclared name)
         | Some w0 \<Rightarrow>
             (case undeclared_cexpr cfg st lvl of
                Some i \<Rightarrow> Inl (Undeclared i)
              | None \<Rightarrow>
                  (case LOG_LVL_CLAMP cfg lvl st of
                     Inl i \<Rightarrow> Inl (Undeclared i)
                   | Inr (v, st1) \<Rightarrow>
                       (let w = to_log_lvl_t v
                        in Inr (Some (lvl_value cfg w),
                                st1\<lparr>log_lvl := (log_lvl st1)(name \<mapsto> w)\<rparr>)))))
      else Inr (None, st))"

subsection \<open>Programs that use the header\<close>

text \<open>
  A client is a sequence of uses of the macros and of declarations \<^verbatim>\<open>int x = v;\<close> of
  its own variables. Building it starts with the header's own check; a use that does
  not build ends the run with its error.
\<close>

datatype stmt =
  Define string cexpr
| GetLevel string
| SetLevel string cexpr
| Log severity string string
| DeclInt string int

fun exec :: "config \<Rightarrow> stmt \<Rightarrow> state \<Rightarrow> build_error + state" where
  "exec cfg (Define name lvl) st = DEFINE_LOG_SYSTEM cfg name lvl st"
| "exec cfg (GetLevel name) st = map_sum id snd (GET_LOG_SYSTEM_LVL cfg name st)"
| "exec cfg (SetLevel name lvl) st = map_sum id snd (SET_LOG_SYSTEM_LVL cfg name lvl st)"
| "exec cfg (Log sev name args) st = LOG cfg sev name args st"
| "exec cfg (DeclInt x v) st =
     (case vars st x of
        Some v0 \<Rightarrow> Inl (Redefinition x)
      | None \<Rightarrow> Inr (st\<lparr>vars := (vars st)(x \<mapsto> v)\<rparr>))"

fun run :: "config \<Rightarrow> stmt list \<Rightarrow> state \<Rightarrow> build_error + state" where
  "run cfg [] st = Inr st"
| "run cfg (s # ss) st =
     (case exec cfg s st of Inl e \<Rightarrow> Inl e | Inr st' \<Rightarrow> run cfg ss st')"

definition build :: "config \<Rightarrow> stmt list \<Rightarrow> build_error + state" where
  "build cfg prog =
     (case mcl_h cfg of Inl e \<Rightarrow> Inl e | Inr u \<Rightarrow> run cfg prog init_state)"

subsection \<open>The clamp of the specification\<close>

text \<open>The specification's \<open>clamp(v, dynamicMin, dynamicMax)\<close>: \<open>v\<close> brought into
  \<open>[lo, hi]\<close>.\<close>

definition clamp_spec :: "int \<Rightarrow> int \<Rightarrow> int \<Rightarrow> int" where
  "clamp_spec v lo hi = max lo (min v hi)"

subsection \<open>The dynamic range\<close>

text \<open>A value lies in the dynamic range when it is between the two bounds.\<close>

definition in_dynamic_range :: "config \<Rightarrow> int \<Rightarrow> bool" where
  "in_dynamic_range cfg v = (DYNAMIC_LOG_LVL_MIN cfg \<le> v \<and> v \<le> DYNAMIC_LOG_LVL_MAX cfg)"

text \<open>
  Both bounds are values a \<^verbatim>\<open>__log_lvl_t\<close> can hold. Every level from \<open>0\<close> to
  \<open>LOG_LVL_ALL\<close> is, whatever the signedness of \<^verbatim>\<open>char\<close>; \<open>LOG_LVL_NONE\<close> is
  where \<^verbatim>\<open>char\<close> is signed.
\<close>

definition bounds_representable :: "config \<Rightarrow> bool" where
  "bounds_representable cfg =
     (lvl_representable cfg (DYNAMIC_LOG_LVL_MIN cfg) \<and>
      lvl_representable cfg (DYNAMIC_LOG_LVL_MAX cfg))"

section \<open>Basic facts\<close>

lemma LOG_eq_LOG_at: "LOG cfg sev = LOG_at cfg (LOG_LVL sev)"
  by (cases sev)
    (simp_all add: LOG_FATAL_def LOG_ERROR_def LOG_WARN_def LOG_MSG_def LOG_INFO_def
      LOG_VERBOSE_def LOG_DEBUG_def LOG_TRACE_def)

lemma LOG_ACTION_changes: "LOG_ACTION lvl args st \<noteq> st"
proof
  assume "LOG_ACTION lvl args st = st"
  then have "length (out (LOG_ACTION lvl args st)) = length (out st)"
    by simp
  then show False
    by (simp add: LOG_ACTION_def split: if_splits)
qed

lemma log_lvl_LOG_ACTION: "log_lvl (LOG_ACTION lvl args st) = log_lvl st"
  by (simp add: LOG_ACTION_def)

named_theorems api_defs \<open>unfolding the macros on concrete inputs\<close>

declare build_def [api_defs] mcl_h_def [api_defs] default_config_def [api_defs]
  DEFINE_LOG_SYSTEM_def [api_defs] SET_LOG_SYSTEM_LVL_def [api_defs]
  GET_LOG_SYSTEM_LVL_def [api_defs] LOG_LVL_CLAMP_def [api_defs] to_log_lvl_t_def [api_defs]
  init_state_def [api_defs] lvl_value_def [api_defs] Let_def [api_defs]
  bounds_representable_def [api_defs] lvl_representable_def [api_defs]
  in_dynamic_range_def [api_defs] LOG_eq_LOG_at [api_defs] LOG_at_def [api_defs]
  LOG_ACTION_def [api_defs] clamp_spec_def [api_defs] converted_def [api_defs]
  c_less_def [api_defs]

subsection \<open>Storing and reading a level\<close>



subsection \<open>The check of the header\<close>


subsection \<open>The clamp macro on an integer constant\<close>




subsection \<open>Arguments the macro does not clamp\<close>

text \<open>
  Under the default bounds \<open>[2, 5]\<close>: the argument \<^verbatim>\<open>1 ? 9 : 0\<close> has the value \<open>9\<close>, and the
  macro body built around it, \<^verbatim>\<open>1 ? 9 : (0 > 5 ? 5 : (...))\<close>, has the value \<open>9\<close> too;
  in parentheses the same argument is clamped to \<open>5\<close>.
\<close>

lemma clamp_conditional_argument:
  "eval_cexpr (default_config True) (Cond (IntConst 1) (Operand (IntConst 9)) (Operand (IntConst 0))) init_state = Inr (9, init_state)
   \<and> LOG_LVL_CLAMP (default_config True) (Cond (IntConst 1) (Operand (IntConst 9)) (Operand (IntConst 0))) init_state = Inr (9, init_state)
   \<and> LOG_LVL_CLAMP (default_config True) (Operand (Paren (Cond (IntConst 1) (Operand (IntConst 9)) (Operand (IntConst 0))))) init_state
       = Inr (5, init_state)"
  by (simp add: api_defs lvl_defs)

text \<open>The argument \<^verbatim>\<open>j++\<close> is evaluated once for each occurrence that is reached: from
  \<open>j = 4\<close> the macro yields \<open>6\<close> and leaves \<open>j = 7\<close>.\<close>

lemma clamp_post_increment:
  "LOG_LVL_CLAMP (default_config True) (Operand (PostInc ''j''))
     \<lparr>log_lvl = Map.empty, vars = [''j'' \<mapsto> 4], out = []\<rparr>
   = Inr (6, \<lparr>log_lvl = Map.empty, vars = [''j'' \<mapsto> 7], out = []\<rparr>)"
  by (simp add: api_defs lvl_defs)

text \<open>With \<open>LOG_LVL_NONE\<close> as the lower bound the \<^verbatim>\<open>unsigned\<close> argument \<^verbatim>\<open>3u\<close> is compared
  with \<open>- 1\<close> converted to \<^verbatim>\<open>unsigned\<close>, is found smaller, and the macro yields the lower
  bound (as an \<^verbatim>\<open>unsigned\<close> value), not \<open>3\<close>.\<close>

lemma clamp_unsigned_argument:
  "LOG_LVL_CLAMP
     \<lparr>DYNAMIC_LOG_LVL = 1, DYNAMIC_LOG_LVL_MAX = LOG_LVL_VERBOSE,
      DYNAMIC_LOG_LVL_MIN = LOG_LVL_NONE, char_is_signed = True\<rparr>
     (Operand (UIntConst 3)) init_state
   = Inr (4294967295, init_state)
   \<and> lvl_value
       \<lparr>DYNAMIC_LOG_LVL = 1, DYNAMIC_LOG_LVL_MAX = LOG_LVL_VERBOSE,
        DYNAMIC_LOG_LVL_MIN = LOG_LVL_NONE, char_is_signed = True\<rparr>
       (to_log_lvl_t 4294967295) = - 1"
  by (simp add: api_defs lvl_defs)

subsection \<open>A bound outside the range of \<^verbatim>\<open>char\<close>\<close>


lemma none_as_bound_on_unsigned_char:
  "map_sum id fst (SET_LOG_SYSTEM_LVL
     \<lparr>DYNAMIC_LOG_LVL = 1, DYNAMIC_LOG_LVL_MAX = LOG_LVL_VERBOSE,
      DYNAMIC_LOG_LVL_MIN = LOG_LVL_NONE, char_is_signed = False\<rparr>
     ''net'' (Operand (IntConst LOG_LVL_NONE)) \<lparr>log_lvl = [''net'' \<mapsto> 3], vars = Map.empty, out = []\<rparr>)
   = Inr (Some 255)"
  by code_simp

lemma none_as_bound_on_signed_char:
  "map_sum id fst (SET_LOG_SYSTEM_LVL
     \<lparr>DYNAMIC_LOG_LVL = 1, DYNAMIC_LOG_LVL_MAX = LOG_LVL_VERBOSE,
      DYNAMIC_LOG_LVL_MIN = LOG_LVL_NONE, char_is_signed = True\<rparr>
     ''net'' (Operand (IntConst LOG_LVL_NONE)) \<lparr>log_lvl = [''net'' \<mapsto> 3], vars = Map.empty, out = []\<rparr>)
   = Inr (Some (- 1))"
  by code_simp

subsection \<open>While the threshold is within the bounds\<close>

text \<open>
  With a threshold of at least \<open>DYNAMIC_LOG_LVL_MIN\<close> a call at or below the minimum
  prints, and with a threshold within the bounds setting a system to its own level
  changes nothing.
\<close>

lemma to_log_lvl_t_lvl_value: "to_log_lvl_t (lvl_value cfg w) = w"
  by (simp add: to_log_lvl_t_def lvl_value_def)

lemma log_at_or_below_min_when_in_range:
  assumes "log_lvl st name = Some w"
    and "DYNAMIC_LOG_LVL_MIN cfg \<le> lvl_value cfg w"
    and "LOG_LVL sev \<le> DYNAMIC_LOG_LVL_MIN cfg"
    and "LOG_LVL sev \<le> DYNAMIC_LOG_LVL_MAX cfg"
  shows "LOG cfg sev name args st = Inr (LOG_ACTION (LOG_LVL sev) args st)"
  using assms by (simp add: LOG_eq_LOG_at LOG_at_def)

lemma set_current_level_when_in_range:
  assumes dyn: "DYNAMIC_LOG_LVL cfg \<noteq> 0"
    and cell: "log_lvl st name = Some w"
    and rng: "in_dynamic_range cfg (lvl_value cfg w)"
  shows "SET_LOG_SYSTEM_LVL cfg name (Operand (GetLvl name)) st = Inr (Some (lvl_value cfg w), st)"
proof -
  have "LOG_LVL_CLAMP cfg (Operand (GetLvl name)) st = Inr (lvl_value cfg w, st)"
    using dyn cell rng
    by (simp add: LOG_LVL_CLAMP_def GET_LOG_SYSTEM_LVL_def converted_def c_less_def
        in_dynamic_range_def)
  moreover have "(log_lvl st)(name \<mapsto> w) = log_lvl st"
    using cell by (rule map_upd_triv)
  ultimately show ?thesis
    using dyn cell
    by (simp add: SET_LOG_SYSTEM_LVL_def Let_def to_log_lvl_t_lvl_value)
qed

subsection \<open>The error directive comes from the header only\<close>

lemma run_no_error_directive: "run cfg prog st \<noteq> Inl (Error_directive m)"
proof (induction prog arbitrary: st)
  case Nil
  show ?case by simp
next
  case (Cons s ss)
  have "exec cfg s st \<noteq> Inl (Error_directive m)"
    by (cases s)
      (auto simp: DEFINE_LOG_SYSTEM_def GET_LOG_SYSTEM_LVL_def SET_LOG_SYSTEM_LVL_def
        LOG_eq_LOG_at LOG_at_def Let_def split: option.splits sum.splits)
  with Cons.IH show ?case
    by (auto split: sum.splits)
qed

section \<open>Levels inside the dynamic range\<close>

text \<open>
  Claim C1. With dynamic adjustment enabled and a call-site level \<open>L\<close> with
  \<open>DYNAMIC_LOG_LVL_MIN < L \<le> DYNAMIC_LOG_LVL_MAX\<close>, a logging call at level \<open>L\<close> on a
  defined system invokes the output action if and only if the threshold that
  \<open>GET_LOG_SYSTEM_LVL\<close> reads in the state of the call is at least \<open>L\<close>; otherwise
  the call leaves the state as it was.
\<close>

theorem log_in_dynamic_range_iff:
  assumes "DYNAMIC_LOG_LVL cfg \<noteq> 0"
    and "DYNAMIC_LOG_LVL_MIN cfg < LOG_LVL sev"
    and "LOG_LVL sev \<le> DYNAMIC_LOG_LVL_MAX cfg"
    and "GET_LOG_SYSTEM_LVL cfg name st = Inr (t, st0)"
  shows "(LOG cfg sev name args st = Inr (LOG_ACTION (LOG_LVL sev) args st)) = (t \<ge> LOG_LVL sev)
    \<and> (LOG cfg sev name args st = Inr st) = (\<not> t \<ge> LOG_LVL sev)"
  using assms LOG_ACTION_changes [of "LOG_LVL sev" args st]
  by (auto simp: LOG_eq_LOG_at LOG_at_def GET_LOG_SYSTEM_LVL_def split: option.splits)

theorem log_in_dynamic_range_iff_witness:
  "DYNAMIC_LOG_LVL (default_config True) \<noteq> 0
   \<and> DYNAMIC_LOG_LVL_MIN (default_config True) < LOG_LVL INFO
   \<and> LOG_LVL INFO \<le> DYNAMIC_LOG_LVL_MAX (default_config True)
   \<and> GET_LOG_SYSTEM_LVL (default_config True) ''net'' \<lparr>log_lvl = [''net'' \<mapsto> 3], vars = Map.empty, out = []\<rparr>
       = Inr (3, \<lparr>log_lvl = [''net'' \<mapsto> 3], vars = Map.empty, out = []\<rparr>)
   \<and> LOG (default_config True) INFO ''net'' ''m'' \<lparr>log_lvl = [''net'' \<mapsto> 3], vars = Map.empty, out = []\<rparr>
       = Inr \<lparr>log_lvl = [''net'' \<mapsto> 3], vars = Map.empty, out = []\<rparr>"
proof -
  let ?cfg = "default_config True"
  let ?st = "\<lparr>log_lvl = [''net'' \<mapsto> 3], vars = Map.empty, out = []\<rparr>"
  have h1: "DYNAMIC_LOG_LVL ?cfg \<noteq> 0"
    by (simp add: default_config_def)
  have h2: "DYNAMIC_LOG_LVL_MIN ?cfg < LOG_LVL INFO"
    by (simp add: default_config_def lvl_defs)
  have h3: "LOG_LVL INFO \<le> DYNAMIC_LOG_LVL_MAX ?cfg"
    by (simp add: default_config_def lvl_defs)
  have h4: "GET_LOG_SYSTEM_LVL ?cfg ''net'' ?st = Inr (3, ?st)"
    by (simp add: GET_LOG_SYSTEM_LVL_def default_config_def lvl_value_def)
  have "LOG ?cfg INFO ''net'' ''m'' ?st = Inr ?st"
    using log_in_dynamic_range_iff [OF h1 h2 h3 h4, of "''m''"]
    by (simp add: lvl_defs)
  with h1 h2 h3 h4 show ?thesis
    by (intro conjI)
qed

section \<open>The threshold can leave the bounds\<close>

text \<open>
  Claim C2 says that the stored threshold of every system is always within
  \<open>[DYNAMIC_LOG_LVL_MIN, DYNAMIC_LOG_LVL_MAX]\<close>, after its definition and after every
  \<open>SET_LOG_SYSTEM_LVL\<close>, for every requested argument. The code does not keep this:
  under the default configuration, a system defined with \<open>LOG_LVL_ERROR\<close> and then set
  with the argument \<^verbatim>\<open>1 ? 9 : 0\<close> holds the threshold \<open>9\<close>, which is above
  \<open>DYNAMIC_LOG_LVL_MAX = 5\<close>.
\<close>

theorem threshold_escapes_dynamic_range:
  "build (default_config True)
     [Define ''net'' (Operand (IntConst LOG_LVL_ERROR)),
      SetLevel ''net'' (Cond (IntConst 1) (Operand (IntConst 9)) (Operand (IntConst 0)))]
     = Inr \<lparr>log_lvl = [''net'' \<mapsto> 9], vars = Map.empty, out = []\<rparr>
   \<and> lvl_value (default_config True) 9 = 9
   \<and> DYNAMIC_LOG_LVL_MAX (default_config True) = 5
   \<and> \<not> in_dynamic_range (default_config True) 9"
  by (simp add: api_defs lvl_defs)

section \<open>Setting a level\<close>

text \<open>
  Claim C3 says that, with dynamic adjustment enabled, \<open>SET_LOG_SYSTEM_LVL\<close> stores and
  returns \<open>clamp(v, min, max)\<close> for every requested value \<open>v\<close>, and that
  \<open>GET_LOG_SYSTEM_LVL\<close> then yields it. The code does not: under the default
  configuration the request \<^verbatim>\<open>1 ? 9 : 0\<close>, whose value is \<open>9\<close>, makes
  \<open>SET_LOG_SYSTEM_LVL\<close> return \<open>9\<close> and \<open>GET_LOG_SYSTEM_LVL\<close> read \<open>9\<close>, while
  \<open>clamp(9, 2, 5)\<close> is \<open>5\<close>.
\<close>

theorem set_level_returns_unclamped:
  "eval_cexpr (default_config True) (Cond (IntConst 1) (Operand (IntConst 9)) (Operand (IntConst 0))) \<lparr>log_lvl = [''net'' \<mapsto> 3], vars = Map.empty, out = []\<rparr>
     = Inr (9, \<lparr>log_lvl = [''net'' \<mapsto> 3], vars = Map.empty, out = []\<rparr>)
   \<and> SET_LOG_SYSTEM_LVL (default_config True) ''net'' (Cond (IntConst 1) (Operand (IntConst 9)) (Operand (IntConst 0))) \<lparr>log_lvl = [''net'' \<mapsto> 3], vars = Map.empty, out = []\<rparr>
     = Inr (Some 9, \<lparr>log_lvl = [''net'' \<mapsto> 9], vars = Map.empty, out = []\<rparr>)
   \<and> GET_LOG_SYSTEM_LVL (default_config True) ''net'' \<lparr>log_lvl = [''net'' \<mapsto> 9], vars = Map.empty, out = []\<rparr>
     = Inr (9, \<lparr>log_lvl = [''net'' \<mapsto> 9], vars = Map.empty, out = []\<rparr>)
   \<and> clamp_spec 9 (DYNAMIC_LOG_LVL_MIN (default_config True)) (DYNAMIC_LOG_LVL_MAX (default_config True)) = 5"
  by (simp add: api_defs lvl_defs)

section \<open>Levels at or below the minimum\<close>

text \<open>
  Claim C4 says that, with dynamic adjustment enabled, a logging call at a level
  \<open>L \<le> DYNAMIC_LOG_LVL_MIN\<close> invokes the output action for every reachable threshold.
  At \<open>L = DYNAMIC_LOG_LVL_MIN\<close> the expansion tests the threshold, and the code lets a
  client reach a threshold below the minimum: under the default configuration, after
  \<open>SET_LOG_SYSTEM_LVL\<close> with the argument \<^verbatim>\<open>1 ? 0 : 9\<close> the threshold is \<open>0\<close> and
  \<open>LOG_WARN\<close> prints nothing.
\<close>

theorem log_at_min_silent_after_set:
  "DYNAMIC_LOG_LVL (default_config True) \<noteq> 0
   \<and> LOG_LVL WARN \<le> DYNAMIC_LOG_LVL_MIN (default_config True)
   \<and> build (default_config True)
       [Define ''net'' (Operand (IntConst LOG_LVL_WARN)),
        SetLevel ''net'' (Cond (IntConst 1) (Operand (IntConst 0)) (Operand (IntConst 9)))]
       = Inr \<lparr>log_lvl = [''net'' \<mapsto> 0], vars = Map.empty, out = []\<rparr>
   \<and> LOG (default_config True) WARN ''net'' ''disk full'' \<lparr>log_lvl = [''net'' \<mapsto> 0], vars = Map.empty, out = []\<rparr>
       = Inr \<lparr>log_lvl = [''net'' \<mapsto> 0], vars = Map.empty, out = []\<rparr>"
  by (simp add: api_defs lvl_defs)

section \<open>Levels above the maximum\<close>

text \<open>
  Claim C5. A logging call at a level above \<open>DYNAMIC_LOG_LVL_MAX\<close> expands to nothing:
  whatever the state (and whether or not the system's variable exists), the call
  leaves the state as it was, so the output action is not invoked.
\<close>

theorem log_above_max_elided:
  assumes "LOG_LVL sev > DYNAMIC_LOG_LVL_MAX cfg"
  shows "LOG cfg sev name args st = Inr st"
  using assms by (simp add: LOG_eq_LOG_at LOG_at_def)

theorem log_above_max_elided_witness:
  "LOG_LVL DEBUG > DYNAMIC_LOG_LVL_MAX (default_config True)
   \<and> LOG (default_config True) DEBUG ''net'' ''probe'' init_state = Inr init_state"
proof -
  have h: "LOG_LVL DEBUG > DYNAMIC_LOG_LVL_MAX (default_config True)"
    by (simp add: default_config_def lvl_defs)
  show ?thesis
    using h log_above_max_elided [OF h, of "''net''" "''probe''" init_state] by simp
qed

section \<open>Dynamic adjustment disabled\<close>

text \<open>
  Claim C6. With \<open>DYNAMIC_LOG_LVL\<close> zero: \<open>SET_LOG_SYSTEM_LVL\<close> leaves the whole state
  as it was for every requested value (and has no value), \<open>GET_LOG_SYSTEM_LVL\<close> is
  the constant \<open>DYNAMIC_LOG_LVL_MAX\<close>, and a logging call invokes the output action
  when its level is at most \<open>DYNAMIC_LOG_LVL_MAX\<close> and does nothing when it is above.
\<close>

theorem dynamic_disabled_behaviour:
  assumes "DYNAMIC_LOG_LVL cfg = 0"
  shows "SET_LOG_SYSTEM_LVL cfg name v st = Inr (None, st)
    \<and> GET_LOG_SYSTEM_LVL cfg name st = Inr (DYNAMIC_LOG_LVL_MAX cfg, st)
    \<and> LOG cfg sev name args st =
        Inr (if LOG_LVL sev \<le> DYNAMIC_LOG_LVL_MAX cfg
             then LOG_ACTION (LOG_LVL sev) args st else st)"
  using assms
  by (simp add: SET_LOG_SYSTEM_LVL_def GET_LOG_SYSTEM_LVL_def LOG_eq_LOG_at LOG_at_def)

theorem dynamic_disabled_behaviour_witness:
  "DYNAMIC_LOG_LVL ((default_config True)\<lparr>DYNAMIC_LOG_LVL := 0\<rparr>) = 0
   \<and> SET_LOG_SYSTEM_LVL ((default_config True)\<lparr>DYNAMIC_LOG_LVL := 0\<rparr>) ''net''
       (Operand (IntConst LOG_LVL_WARN)) init_state = Inr (None, init_state)
   \<and> GET_LOG_SYSTEM_LVL ((default_config True)\<lparr>DYNAMIC_LOG_LVL := 0\<rparr>) ''net'' init_state
       = Inr (LOG_LVL_VERBOSE, init_state)
   \<and> LOG ((default_config True)\<lparr>DYNAMIC_LOG_LVL := 0\<rparr>) VERBOSE ''net'' ''tick'' init_state
       = Inr \<lparr>log_lvl = Map.empty, vars = Map.empty, out = [(Stdout, ''tick'')]\<rparr>"
proof -
  let ?cfg = "(default_config True)\<lparr>DYNAMIC_LOG_LVL := 0\<rparr>"
  have off: "DYNAMIC_LOG_LVL ?cfg = 0"
    by simp
  show ?thesis
    using dynamic_disabled_behaviour [OF off, of "''net''" "Operand (IntConst LOG_LVL_WARN)" init_state VERBOSE "''tick''"]
    by (simp add: default_config_def LOG_ACTION_def init_state_def lvl_defs)
qed

section \<open>Defining a system\<close>




section \<open>Setting the current level again\<close>

text \<open>
  Claim C8 says that in every reachable state \<open>SET_LOG_SYSTEM_LVL(name,
  GET_LOG_SYSTEM_LVL(name))\<close> leaves the stored threshold unchanged. The code lets a
  client reach a threshold outside the bounds, and there the call changes it: under
  the default configuration, after \<open>SET_LOG_SYSTEM_LVL\<close> with the argument
  \<^verbatim>\<open>1 ? 9 : 0\<close> the threshold is \<open>9\<close>, and setting it to what \<open>GET_LOG_SYSTEM_LVL\<close>
  returns stores \<open>5\<close>.
\<close>

theorem set_current_level_changes_threshold:
  "build (default_config True)
     [Define ''net'' (Operand (IntConst LOG_LVL_ERROR)),
      SetLevel ''net'' (Cond (IntConst 1) (Operand (IntConst 9)) (Operand (IntConst 0)))]
     = Inr \<lparr>log_lvl = [''net'' \<mapsto> 9], vars = Map.empty, out = []\<rparr>
   \<and> GET_LOG_SYSTEM_LVL (default_config True) ''net'' \<lparr>log_lvl = [''net'' \<mapsto> 9], vars = Map.empty, out = []\<rparr>
     = Inr (9, \<lparr>log_lvl = [''net'' \<mapsto> 9], vars = Map.empty, out = []\<rparr>)
   \<and> SET_LOG_SYSTEM_LVL (default_config True) ''net'' (Operand (GetLvl ''net''))
       \<lparr>log_lvl = [''net'' \<mapsto> 9], vars = Map.empty, out = []\<rparr>
     = Inr (Some 5, \<lparr>log_lvl = [''net'' \<mapsto> 5], vars = Map.empty, out = []\<rparr>)"
  by (simp add: api_defs lvl_defs)

section \<open>Bounds in the wrong order\<close>

text \<open>
  Claim C9. A configuration with \<open>DYNAMIC_LOG_LVL_MIN > DYNAMIC_LOG_LVL_MAX\<close> does not
  build: every client ends in the header's \<^verbatim>\<open>#error\<close>, so no state exists, and the
  outcome is not that of the same client under the two bounds exchanged.
\<close>

theorem min_above_max_is_build_error:
  assumes "DYNAMIC_LOG_LVL_MIN cfg > DYNAMIC_LOG_LVL_MAX cfg"
  shows "build cfg prog =
      Inl (Error_directive ''DYNAMIC_LOG_LVL_MIN cannot be greater than DYNAMIC_LOG_LVL_MAX'')
    \<and> build cfg prog \<noteq>
        build (cfg\<lparr>DYNAMIC_LOG_LVL_MAX := DYNAMIC_LOG_LVL_MIN cfg,
                  DYNAMIC_LOG_LVL_MIN := DYNAMIC_LOG_LVL_MAX cfg\<rparr>) prog"
proof -
  let ?swapped = "cfg\<lparr>DYNAMIC_LOG_LVL_MAX := DYNAMIC_LOG_LVL_MIN cfg,
                  DYNAMIC_LOG_LVL_MIN := DYNAMIC_LOG_LVL_MAX cfg\<rparr>"
  let ?e = "Error_directive ''DYNAMIC_LOG_LVL_MIN cannot be greater than DYNAMIC_LOG_LVL_MAX''"
  have 1: "build cfg prog = Inl ?e"
    using assms by (simp add: build_def mcl_h_def)
  have "build ?swapped prog = run ?swapped prog init_state"
    using assms by (simp add: build_def mcl_h_def)
  then have "build ?swapped prog \<noteq> Inl ?e"
    using run_no_error_directive [of ?swapped prog init_state] by simp
  with 1 show ?thesis by simp
qed

theorem min_above_max_is_build_error_witness:
  "DYNAMIC_LOG_LVL_MIN \<lparr>DYNAMIC_LOG_LVL = 1, DYNAMIC_LOG_LVL_MAX = LOG_LVL_WARN,
        DYNAMIC_LOG_LVL_MIN = LOG_LVL_VERBOSE, char_is_signed = True\<rparr>
     > DYNAMIC_LOG_LVL_MAX \<lparr>DYNAMIC_LOG_LVL = 1, DYNAMIC_LOG_LVL_MAX = LOG_LVL_WARN,
        DYNAMIC_LOG_LVL_MIN = LOG_LVL_VERBOSE, char_is_signed = True\<rparr>
   \<and> build \<lparr>DYNAMIC_LOG_LVL = 1, DYNAMIC_LOG_LVL_MAX = LOG_LVL_WARN,
        DYNAMIC_LOG_LVL_MIN = LOG_LVL_VERBOSE, char_is_signed = True\<rparr>
        [Define ''net'' (Operand (IntConst LOG_LVL_MSG))]
     = Inl (Error_directive ''DYNAMIC_LOG_LVL_MIN cannot be greater than DYNAMIC_LOG_LVL_MAX'')
   \<and> build \<lparr>DYNAMIC_LOG_LVL = 1, DYNAMIC_LOG_LVL_MAX = LOG_LVL_VERBOSE,
        DYNAMIC_LOG_LVL_MIN = LOG_LVL_WARN, char_is_signed = True\<rparr>
        [Define ''net'' (Operand (IntConst LOG_LVL_MSG))]
     = Inr \<lparr>log_lvl = [''net'' \<mapsto> 3], vars = Map.empty, out = []\<rparr>"
proof -
  let ?cfg = "\<lparr>DYNAMIC_LOG_LVL = 1, DYNAMIC_LOG_LVL_MAX = LOG_LVL_WARN,
        DYNAMIC_LOG_LVL_MIN = LOG_LVL_VERBOSE, char_is_signed = True\<rparr>"
  have h: "DYNAMIC_LOG_LVL_MIN ?cfg > DYNAMIC_LOG_LVL_MAX ?cfg"
    by (simp add: lvl_defs)
  have sw: "build \<lparr>DYNAMIC_LOG_LVL = 1, DYNAMIC_LOG_LVL_MAX = LOG_LVL_VERBOSE,
        DYNAMIC_LOG_LVL_MIN = LOG_LVL_WARN, char_is_signed = True\<rparr>
        [Define ''net'' (Operand (IntConst LOG_LVL_MSG))]
     = Inr \<lparr>log_lvl = [''net'' \<mapsto> 3], vars = Map.empty, out = []\<rparr>"
    by (simp add: api_defs lvl_defs)
  from h sw min_above_max_is_build_error [OF h, of "[Define ''net'' (Operand (IntConst LOG_LVL_MSG))]"]
  show ?thesis
    by (intro conjI) simp_all
qed

section \<open>What writes a threshold\<close>

text \<open>
  Claim C10. A logging call, whichever of its three expansions applies, leaves every
  system's stored threshold as it was; \<open>GET_LOG_SYSTEM_LVL\<close> leaves the whole state
  as it was; and a use of the header that changes some threshold is a
  \<open>DEFINE_LOG_SYSTEM\<close> or a \<open>SET_LOG_SYSTEM_LVL\<close>.
\<close>

theorem log_and_get_keep_thresholds:
  "(LOG cfg sev name args st = Inr st1 \<longrightarrow> log_lvl st1 = log_lvl st)
   \<and> (GET_LOG_SYSTEM_LVL cfg name st = Inr (t, st2) \<longrightarrow> st2 = st)
   \<and> (exec cfg s st = Inr st3 \<and> log_lvl st3 \<noteq> log_lvl st
        \<longrightarrow> (\<exists>n d. s = Define n d) \<or> (\<exists>n v. s = SetLevel n v))"
proof (intro conjI impI)
  assume "LOG cfg sev name args st = Inr st1"
  then show "log_lvl st1 = log_lvl st"
    by (auto simp: LOG_eq_LOG_at LOG_at_def log_lvl_LOG_ACTION split: if_splits option.splits)
next
  assume "GET_LOG_SYSTEM_LVL cfg name st = Inr (t, st2)"
  then show "st2 = st"
    by (auto simp: GET_LOG_SYSTEM_LVL_def split: if_splits option.splits)
next
  assume "exec cfg s st = Inr st3 \<and> log_lvl st3 \<noteq> log_lvl st"
  then show "(\<exists>n d. s = Define n d) \<or> (\<exists>n v. s = SetLevel n v)"
    by (cases s)
      (auto simp: LOG_eq_LOG_at LOG_at_def log_lvl_LOG_ACTION GET_LOG_SYSTEM_LVL_def
        split: if_splits option.splits)
qed

theorem log_and_get_keep_thresholds_witness:
  "LOG (default_config True) MSG ''net'' ''up'' \<lparr>log_lvl = [''net'' \<mapsto> 3], vars = Map.empty, out = []\<rparr>
       = Inr \<lparr>log_lvl = [''net'' \<mapsto> 3], vars = Map.empty, out = [(Stdout, ''up'')]\<rparr>
   \<and> log_lvl \<lparr>log_lvl = [''net'' \<mapsto> 3], vars = Map.empty, out = [(Stdout, ''up'')]\<rparr>
       = log_lvl \<lparr>log_lvl = [''net'' \<mapsto> 3], vars = Map.empty, out = []\<rparr>
   \<and> GET_LOG_SYSTEM_LVL (default_config True) ''net'' \<lparr>log_lvl = [''net'' \<mapsto> 3], vars = Map.empty, out = []\<rparr>
       = Inr (3, \<lparr>log_lvl = [''net'' \<mapsto> 3], vars = Map.empty, out = []\<rparr>)
   \<and> exec (default_config True) (SetLevel ''net'' (Operand (IntConst 5))) \<lparr>log_lvl = [''net'' \<mapsto> 3], vars = Map.empty, out = []\<rparr>
       = Inr \<lparr>log_lvl = [''net'' \<mapsto> 5], vars = Map.empty, out = []\<rparr>
   \<and> log_lvl \<lparr>log_lvl = [''net'' \<mapsto> 5], vars = Map.empty, out = []\<rparr>
       \<noteq> log_lvl \<lparr>log_lvl = [''net'' \<mapsto> 3], vars = Map.empty, out = []\<rparr>
   \<and> ((\<exists>n d. SetLevel ''net'' (Operand (IntConst 5)) = Define n d) \<or> (\<exists>n v. SetLevel ''net'' (Operand (IntConst 5)) = SetLevel n v))"
proof -
  let ?cfg = "default_config True"
  let ?st = "\<lparr>log_lvl = [''net'' \<mapsto> 3], vars = Map.empty, out = []\<rparr>"
  let ?st1 = "\<lparr>log_lvl = [''net'' \<mapsto> 3], vars = Map.empty, out = [(Stdout, ''up'')]\<rparr>"
  let ?st3 = "\<lparr>log_lvl = [''net'' \<mapsto> 5], vars = Map.empty, out = []\<rparr>"
  have l: "LOG ?cfg MSG ''net'' ''up'' ?st = Inr ?st1"
    by (simp add: api_defs lvl_defs)
  have g: "GET_LOG_SYSTEM_LVL ?cfg ''net'' ?st = Inr (3, ?st)"
    by (simp add: api_defs)
  have e: "exec ?cfg (SetLevel ''net'' (Operand (IntConst 5))) ?st = Inr ?st3"
    by (simp add: api_defs lvl_defs)
  have "log_lvl ?st3 ''net'' \<noteq> log_lvl ?st ''net''"
    by simp
  then have ne: "log_lvl ?st3 \<noteq> log_lvl ?st"
    by metis
  from l g e ne
    log_and_get_keep_thresholds [of ?cfg MSG "''net''" "''up''" ?st ?st1 3 ?st
      "SetLevel ''net'' (Operand (IntConst 5))" ?st3]
  show ?thesis
    by (intro conjI) blast+
qed

end
